theory Spec2Isabelle
  imports Main "HOL-Library.Word"
begin

section \<open>The connection classes of connection.hpp\<close>

text \<open>
  The header declares two abstract classes, \<^verbatim>\<open>Connection\<close> and \<^verbatim>\<open>Server\<close>, each with
  one data member (\<^verbatim>\<open>std::string failure_reason\<close>), and two concrete classes,
  \<^verbatim>\<open>TCP_Connection\<close> and \<^verbatim>\<open>TCP_Server\<close>, each adding a socket handle and a flag.
  A class is a record; a derived class extends the record of its base. The type of the
  socket handle is chosen by the preprocessor (\<^verbatim>\<open>int\<close> under POSIX, \<^verbatim>\<open>SOCKET\<close> under
  Win32, selected in environ.hpp), so the records take it as the type parameter \<open>'h\<close>.
  Member functions that are not declared \<^verbatim>\<open>const\<close> take the object and return it
  beside their result.
\<close>

subsection \<open>Data members\<close>

record Connection =
  failure_reason :: string

record 'h TCP_Connection = Connection +
  connection_handle :: 'h
  is_open :: bool

record Server =
  failure_reason :: string

record 'h TCP_Server = Server +
  listen_handle :: 'h
  is_listening :: bool

text \<open>The C type \<^verbatim>\<open>int\<close> of the results and counts of \<^verbatim>\<open>read\<close> and \<^verbatim>\<open>write\<close>.\<close>

type_synonym c_int = "32 word"

subsection \<open>Member functions defined in the header\<close>

text \<open>
  \<^verbatim>\<open>Connection\<close> and \<^verbatim>\<open>Server\<close> declare no constructor: the implicit default
  constructor default-constructs \<^verbatim>\<open>failure_reason\<close>, and a default-constructed
  \<^verbatim>\<open>std::string\<close> is empty. Every constructor of a derived class runs it first.
\<close>

definition Connection_ctor :: Connection where
  "Connection_ctor = \<lparr> Connection.failure_reason = [] \<rparr>"

definition Server_ctor :: Server where
  "Server_ctor = \<lparr> Server.failure_reason = [] \<rparr>"

text \<open>\<^verbatim>\<open>std::string get_failure( ) { return( failure_reason ); }\<close>, in both base classes.\<close>

definition Connection_get_failure ::
  "'a Connection_scheme \<Rightarrow> string \<times> 'a Connection_scheme" where
  "Connection_get_failure this = (Connection.failure_reason this, this)"

definition Server_get_failure ::
  "'a Server_scheme \<Rightarrow> string \<times> 'a Server_scheme" where
  "Server_get_failure this = (Server.failure_reason this, this)"

text \<open>
  \<^verbatim>\<open>TCP_Connection( int existing_connection )
      : connection_handle( existing_connection ), is_open( true ) { }\<close>
  The base subobject is built by the default constructor of \<^verbatim>\<open>Connection\<close>, then the two
  members are initialised; the body is empty.
\<close>

definition TCP_Connection_ctor :: "'h \<Rightarrow> 'h TCP_Connection" where
  "TCP_Connection_ctor existing_connection =
     \<lparr> Connection.failure_reason = Connection.failure_reason Connection_ctor,
       connection_handle = existing_connection,
       is_open = True \<rparr>"

text \<open>\<^verbatim>\<open>virtual bool isOk( ) { return( is_open ); }\<close>\<close>

definition TCP_Connection_isOk :: "'h TCP_Connection \<Rightarrow> bool \<times> 'h TCP_Connection" where
  "TCP_Connection_isOk this = (is_open this, this)"

text \<open>\<^verbatim>\<open>virtual bool isOk( ) { return( is_listening ); }\<close>\<close>

definition TCP_Server_isOk :: "'h TCP_Server \<Rightarrow> bool \<times> 'h TCP_Server" where
  "TCP_Server_isOk this = (is_listening this, this)"

subsection \<open>The platform\<close>

text \<open>
  The socket layer of the operating system is outside the repository. What matters of
  it here is which handles refer to a live socket at a given moment, and which handles
  have been handed back, in order. Both are taken as a parameter: a state of the
  platform.
\<close>

record 'h platform =
  live :: "'h set"
  released :: "'h list"

definition handle_live :: "'h platform \<Rightarrow> 'h \<Rightarrow> bool" where
  "handle_live p h = (h \<in> live p)"


text \<open>
  What the platform's receive, send and accept primitives report to a blocking caller,
  once they return.
\<close>

datatype recv_outcome = Recv_Bytes string | Recv_Eof | Recv_Error string

datatype send_outcome = Send_Accepted nat | Send_Error string

datatype 'h accept_outcome =
    Accept_Client 'h
  | Accept_Client_Failed 'h string
  | Accept_Listener_Failed 'h string

text \<open>
  The contract of the receive primitive for a request of \<open>count\<close> bytes on a stream
  socket, as section 4.1 of the spec words it (the call blocks until at least one byte
  is available or the peer has closed, and fills up to \<open>count\<close> bytes): data means at
  least one byte and at most \<open>count\<close>.
\<close>

fun recv_contract :: "c_int \<Rightarrow> recv_outcome \<Rightarrow> bool" where
  "recv_contract count (Recv_Bytes bs) = (0 < length bs \<and> int (length bs) \<le> sint count)"
| "recv_contract count Recv_Eof = True"
| "recv_contract count (Recv_Error msg) = True"

fun recv_failed :: "recv_outcome \<Rightarrow> bool" where
  "recv_failed (Recv_Error msg) = True"
| "recv_failed (Recv_Bytes bs) = False"
| "recv_failed Recv_Eof = False"

fun send_failed :: "send_outcome \<Rightarrow> bool" where
  "send_failed (Send_Error msg) = True"
| "send_failed (Send_Accepted n) = False"

fun accept_failed :: "'h accept_outcome \<Rightarrow> bool" where
  "accept_failed (Accept_Client h) = False"
| "accept_failed (Accept_Client_Failed h msg) = True"
| "accept_failed (Accept_Listener_Failed h msg) = True"

subsection \<open>Member functions declared in the header and defined elsewhere\<close>

text \<open>
  Modelled from the spec: the body of \<^verbatim>\<open>TCP_Connection::read\<close> is missing (the header
  only declares it). The spec, section 4.1 and 4.2: the call delegates to the platform
  primitive; it returns the number of bytes stored in the buffer, \<open>0\<close> at end-of-stream,
  which does not change \<open>is_open\<close>; a platform-reported error gives a negative result,
  \<open>is_open = false\<close> and a \<open>failure_reason\<close>. The result is the returned \<^verbatim>\<open>int\<close>, the
  bytes stored in the buffer, and the object.
\<close>

fun TCP_Connection_read ::
  "'h TCP_Connection \<Rightarrow> c_int \<Rightarrow> recv_outcome \<Rightarrow> c_int \<times> string \<times> 'h TCP_Connection" where
  "TCP_Connection_read this count (Recv_Bytes bs) = (of_nat (length bs), bs, this)"
| "TCP_Connection_read this count Recv_Eof = (0, [], this)"
| "TCP_Connection_read this count (Recv_Error msg) =
     (- 1, [], this\<lparr> Connection.failure_reason := msg, is_open := False \<rparr>)"

text \<open>
  Modelled from the spec: the body of \<^verbatim>\<open>TCP_Connection::write\<close> is missing. The spec,
  section 4.1 and 4.2: the call delegates to the platform primitive and returns the
  number of bytes accepted; a platform-reported error gives \<open>is_open = false\<close> and a
  \<open>failure_reason\<close>.
\<close>

fun TCP_Connection_write ::
  "'h TCP_Connection \<Rightarrow> c_int \<Rightarrow> send_outcome \<Rightarrow> c_int \<times> 'h TCP_Connection" where
  "TCP_Connection_write this count (Send_Accepted n) = (of_nat n, this)"
| "TCP_Connection_write this count (Send_Error msg) =
     (- 1, this\<lparr> Connection.failure_reason := msg, is_open := False \<rparr>)"



text \<open>
  Modelled from the spec: the body of \<^verbatim>\<open>TCP_Server::accept\<close> is missing. The spec,
  section 4.4: on success the accepted handle is wrapped by the handle-adopting
  constructor and the new object is returned, the server staying as it is; a failure
  is signalled through the returned connection's \<open>isOk()\<close> and \<open>failure_reason\<close>, and a
  failure of the listener also through the server's own status. A failed outcome carries
  the handle value the platform returned with it.
\<close>

fun TCP_Server_accept ::
  "'h TCP_Server \<Rightarrow> 'h accept_outcome \<Rightarrow> 'h TCP_Connection \<times> 'h TCP_Server" where
  "TCP_Server_accept this (Accept_Client h) = (TCP_Connection_ctor h, this)"
| "TCP_Server_accept this (Accept_Client_Failed h msg) =
     ((TCP_Connection_ctor h)\<lparr> Connection.failure_reason := msg, is_open := False \<rparr>, this)"
| "TCP_Server_accept this (Accept_Listener_Failed h msg) =
     ((TCP_Connection_ctor h)\<lparr> Connection.failure_reason := msg, is_open := False \<rparr>,
      this\<lparr> Server.failure_reason := msg, is_listening := False \<rparr>)"

subsection \<open>Sequences of calls on one object\<close>

text \<open>
  The calls the public interface of a connection offers on an existing object, each
  with what the platform reports to it, and the object after the call.
\<close>

datatype conn_call =
    Call_read c_int recv_outcome
  | Call_write c_int send_outcome
  | Call_isOk
  | Call_get_failure

fun conn_call_step :: "conn_call \<Rightarrow> 'h TCP_Connection \<Rightarrow> 'h TCP_Connection" where
  "conn_call_step (Call_read count oc) this = snd (snd (TCP_Connection_read this count oc))"
| "conn_call_step (Call_write count oc) this = snd (TCP_Connection_write this count oc)"
| "conn_call_step Call_isOk this = snd (TCP_Connection_isOk this)"
| "conn_call_step Call_get_failure this = snd (Connection_get_failure this)"

definition conn_calls :: "conn_call list \<Rightarrow> 'h TCP_Connection \<Rightarrow> 'h TCP_Connection" where
  "conn_calls cs this = fold conn_call_step cs this"

fun conn_call_failed :: "conn_call \<Rightarrow> bool" where
  "conn_call_failed (Call_read count oc) = recv_failed oc"
| "conn_call_failed (Call_write count oc) = send_failed oc"
| "conn_call_failed Call_isOk = False"
| "conn_call_failed Call_get_failure = False"

text \<open>The same for a server.\<close>

datatype 'h server_call =
    Call_accept "'h accept_outcome"
  | Call_server_isOk
  | Call_server_get_failure

fun server_call_step :: "'h server_call \<Rightarrow> 'h TCP_Server \<Rightarrow> 'h TCP_Server" where
  "server_call_step (Call_accept oc) this = snd (TCP_Server_accept this oc)"
| "server_call_step Call_server_isOk this = snd (TCP_Server_isOk this)"
| "server_call_step Call_server_get_failure this = snd (Server_get_failure this)"

definition server_calls :: "'h server_call list \<Rightarrow> 'h TCP_Server \<Rightarrow> 'h TCP_Server" where
  "server_calls cs this = fold server_call_step cs this"

fun server_call_failed :: "'h server_call \<Rightarrow> bool" where
  "server_call_failed (Call_accept oc) = accept_failed oc"
| "server_call_failed Call_server_isOk = False"
| "server_call_failed Call_server_get_failure = False"

subsection \<open>The constructors whose bodies are elsewhere\<close>






subsection \<open>Member declarations and who may call them\<close>






subsection \<open>The live objects of a program\<close>

text \<open>
  The objects of both classes that a program has, by address: slot \<open>i\<close> holds the object
  at address \<open>i\<close>, or nothing once that object is destroyed; addresses are not reused.
\<close>

datatype 'h object = Conn "'h TCP_Connection" | Serv "'h TCP_Server"

type_synonym 'h object_store = "'h object option list"

type_synonym 'h world = "'h platform \<times> 'h object_store"









text \<open>
  The handle an object owns: the one it stores while its flag is set, which is the one
  its destructor will release.
\<close>

fun object_owned :: "'h object option \<Rightarrow> 'h list" where
  "object_owned None = []"
| "object_owned (Some (Conn c)) = (if is_open c then [connection_handle c] else [])"
| "object_owned (Some (Serv s)) = (if is_listening s then [listen_handle s] else [])"

definition owned_handles :: "'h object_store \<Rightarrow> 'h list" where
  "owned_handles st = concat (map object_owned st)"




text \<open>Every owned handle is live, and no handle is owned twice.\<close>

definition ownership_inv :: "'h world \<Rightarrow> bool" where
  "ownership_inv w =
     (distinct (owned_handles (snd w)) \<and> set (owned_handles (snd w)) \<subseteq> live (fst w))"


section \<open>Auxiliary facts\<close>

lemma sint_of_nat_within_count:
  assumes "int n \<le> sint (count :: c_int)"
  shows "sint (of_nat n :: c_int) = int n"
proof -
  have "sint count < 2 ^ 31"
    using sint_lt [of count] by simp
  with assms have b: "int n < 2 ^ 31" by linarith
  have "sint (of_nat n :: c_int) = signed_take_bit 31 (int n)"
    using sint_sbintrunc' [where ?'a = 32, of "int n"] by simp
  also have "\<dots> = int n"
    using b by (simp add: signed_take_bit_int_eq_self)
  finally show ?thesis .
qed

lemma of_nat_within_count_nonzero:
  assumes "0 < n" and "int n \<le> sint (count :: c_int)"
  shows "(of_nat n :: c_int) \<noteq> 0"
proof
  assume "(of_nat n :: c_int) = 0"
  then have "sint (of_nat n :: c_int) = 0" by simp
  with sint_of_nat_within_count [OF assms(2)] assms(1) show False by simp
qed

lemma conn_call_step_stays_closed:
  "\<not> is_open this \<Longrightarrow> \<not> is_open (conn_call_step call this)"
proof (cases call)
  case (Call_read count oc)
  then show "\<not> is_open this \<Longrightarrow> \<not> is_open (conn_call_step call this)"
    by (cases oc) simp_all
next
  case (Call_write count oc)
  then show "\<not> is_open this \<Longrightarrow> \<not> is_open (conn_call_step call this)"
    by (cases oc) simp_all
next
  case Call_isOk
  then show "\<not> is_open this \<Longrightarrow> \<not> is_open (conn_call_step call this)"
    by (simp add: TCP_Connection_isOk_def)
next
  case Call_get_failure
  then show "\<not> is_open this \<Longrightarrow> \<not> is_open (conn_call_step call this)"
    by (simp add: Connection_get_failure_def)
qed

lemma conn_calls_stay_closed:
  "\<not> is_open this \<Longrightarrow> \<not> is_open (conn_calls cs this)"
  unfolding conn_calls_def
proof (induction cs arbitrary: this)
  case Nil
  then show ?case by simp
next
  case (Cons call cs)
  from Cons.prems have "\<not> is_open (conn_call_step call this)"
    by (rule conn_call_step_stays_closed)
  then have "\<not> is_open (fold conn_call_step cs (conn_call_step call this))"
    by (rule Cons.IH)
  then show ?case by simp
qed

lemma server_call_step_stays_closed:
  "\<not> is_listening this \<Longrightarrow> \<not> is_listening (server_call_step call this)"
proof (cases call)
  case (Call_accept oc)
  then show "\<not> is_listening this \<Longrightarrow> \<not> is_listening (server_call_step call this)"
    by (cases oc) simp_all
next
  case Call_server_isOk
  then show "\<not> is_listening this \<Longrightarrow> \<not> is_listening (server_call_step call this)"
    by (simp add: TCP_Server_isOk_def)
next
  case Call_server_get_failure
  then show "\<not> is_listening this \<Longrightarrow> \<not> is_listening (server_call_step call this)"
    by (simp add: Server_get_failure_def)
qed

lemma server_calls_stay_closed:
  "\<not> is_listening this \<Longrightarrow> \<not> is_listening (server_calls cs this)"
  unfolding server_calls_def
proof (induction cs arbitrary: this)
  case Nil
  then show ?case by simp
next
  case (Cons call cs)
  from Cons.prems have "\<not> is_listening (server_call_step call this)"
    by (rule server_call_step_stays_closed)
  then have "\<not> is_listening (fold server_call_step cs (server_call_step call this))"
    by (rule Cons.IH)
  then show ?case by simp
qed

lemma conn_call_step_keeps_reason:
  "\<not> conn_call_failed call \<Longrightarrow>
   Connection.failure_reason (conn_call_step call this) = Connection.failure_reason this"
proof (cases call)
  case (Call_read count oc)
  then show "\<not> conn_call_failed call \<Longrightarrow>
     Connection.failure_reason (conn_call_step call this) = Connection.failure_reason this"
    by (cases oc) simp_all
next
  case (Call_write count oc)
  then show "\<not> conn_call_failed call \<Longrightarrow>
     Connection.failure_reason (conn_call_step call this) = Connection.failure_reason this"
    by (cases oc) simp_all
next
  case Call_isOk
  then show "\<not> conn_call_failed call \<Longrightarrow>
     Connection.failure_reason (conn_call_step call this) = Connection.failure_reason this"
    by (simp add: TCP_Connection_isOk_def)
next
  case Call_get_failure
  then show "\<not> conn_call_failed call \<Longrightarrow>
     Connection.failure_reason (conn_call_step call this) = Connection.failure_reason this"
    by (simp add: Connection_get_failure_def)
qed

lemma conn_calls_keep_reason:
  "list_all (\<lambda>call. \<not> conn_call_failed call) cs \<Longrightarrow>
   Connection.failure_reason (conn_calls cs this) = Connection.failure_reason this"
  unfolding conn_calls_def
  by (induction cs arbitrary: this) (simp_all add: conn_call_step_keeps_reason)

lemma server_call_step_keeps_reason:
  "\<not> server_call_failed call \<Longrightarrow>
   Server.failure_reason (server_call_step call this) = Server.failure_reason this"
proof (cases call)
  case (Call_accept oc)
  then show "\<not> server_call_failed call \<Longrightarrow>
     Server.failure_reason (server_call_step call this) = Server.failure_reason this"
    by (cases oc) simp_all
next
  case Call_server_isOk
  then show "\<not> server_call_failed call \<Longrightarrow>
     Server.failure_reason (server_call_step call this) = Server.failure_reason this"
    by (simp add: TCP_Server_isOk_def)
next
  case Call_server_get_failure
  then show "\<not> server_call_failed call \<Longrightarrow>
     Server.failure_reason (server_call_step call this) = Server.failure_reason this"
    by (simp add: Server_get_failure_def)
qed

lemma server_calls_keep_reason:
  "list_all (\<lambda>call. \<not> server_call_failed call) cs \<Longrightarrow>
   Server.failure_reason (server_calls cs this) = Server.failure_reason this"
  unfolding server_calls_def
  by (induction cs arbitrary: this) (simp_all add: server_call_step_keeps_reason)



lemma read_zero_iff_eof:
  assumes "recv_contract count oc"
  shows "(fst (TCP_Connection_read this count oc) = 0) = (oc = Recv_Eof)"
proof (cases oc)
  case (Recv_Bytes bs)
  with assms have "0 < length bs" and "int (length bs) \<le> sint count"
    by simp_all
  then have "(of_nat (length bs) :: c_int) \<noteq> 0"
    by (rule of_nat_within_count_nonzero)
  with Recv_Bytes show ?thesis by simp
next
  case Recv_Eof
  then show ?thesis by simp
next
  case (Recv_Error msg)
  then show ?thesis by simp
qed

lemma read_failure_signalled:
  assumes "recv_contract count oc"
    and bad: "sint (fst (TCP_Connection_read this count oc)) < 0
         \<or> (is_open this
            \<and> \<not> fst (TCP_Connection_isOk (snd (snd (TCP_Connection_read this count oc)))))"
  shows "\<exists>msg. oc = Recv_Error msg
          \<and> fst (Connection_get_failure (snd (snd (TCP_Connection_read this count oc)))) = msg"
proof (cases oc)
  case (Recv_Bytes bs)
  with assms(1) have "int (length bs) \<le> sint count" by simp
  then have "sint (of_nat (length bs) :: c_int) = int (length bs)"
    by (rule sint_of_nat_within_count)
  with Recv_Bytes bad show ?thesis
    by (simp add: TCP_Connection_isOk_def)
next
  case Recv_Eof
  with bad show ?thesis by (simp add: TCP_Connection_isOk_def)
next
  case (Recv_Error msg)
  then show ?thesis by (simp add: Connection_get_failure_def)
qed















lemma ownership_inv_live_mono:
  "ownership_inv (p, st) \<Longrightarrow> live p \<subseteq> live q \<Longrightarrow> ownership_inv (q, st)"
  by (auto simp add: ownership_inv_def)



















section \<open>Construction and the queries\<close>

text \<open>
  C1. The handle-adopting constructor stores the handle it is given as the connection
  handle and sets \<open>is_open\<close> to true whatever the handle is, so that \<open>isOk()\<close> answers
  true right after construction and leaves the object as built. The object now holds
  the handle with the flag set: it is the one that will release it.
\<close>

theorem TCP_Connection_ctor_adopts:
  "connection_handle (TCP_Connection_ctor h) = h
   \<and> is_open (TCP_Connection_ctor h)
   \<and> TCP_Connection_isOk (TCP_Connection_ctor h) = (True, TCP_Connection_ctor h)"
  by (simp add: TCP_Connection_ctor_def TCP_Connection_isOk_def)

text \<open>
  C2. When the platform reports an accepted client, \<open>accept\<close> returns the object that
  the handle-adopting constructor builds from the accepted handle, and that object
  answers true to \<open>isOk()\<close>; the server itself is left as it was.
\<close>

theorem TCP_Server_accept_success:
  "\<not> accept_failed oc \<Longrightarrow>
   \<exists>h. oc = Accept_Client h
     \<and> TCP_Server_accept this oc = (TCP_Connection_ctor h, this)
     \<and> connection_handle (fst (TCP_Server_accept this oc)) = h
     \<and> fst (TCP_Connection_isOk (fst (TCP_Server_accept this oc)))"
  by (cases oc) (simp_all add: TCP_Connection_ctor_def TCP_Connection_isOk_def)

theorem TCP_Server_accept_success_witness:
  "\<not> accept_failed (Accept_Client (7 :: 32 word))
   \<and> TCP_Server_accept
        \<lparr> Server.failure_reason = [], listen_handle = 3, is_listening = True \<rparr>
        (Accept_Client (7 :: 32 word))
      = (TCP_Connection_ctor 7,
         \<lparr> Server.failure_reason = [], listen_handle = 3, is_listening = True \<rparr>)
   \<and> fst (TCP_Connection_isOk (fst (TCP_Server_accept
        \<lparr> Server.failure_reason = [], listen_handle = 3, is_listening = True \<rparr>
        (Accept_Client (7 :: 32 word)))))"
proof -
  have ok: "\<not> accept_failed (Accept_Client (7 :: 32 word))" by simp
  show ?thesis
    using ok TCP_Server_accept_success [OF ok,
      of "\<lparr> Server.failure_reason = [], listen_handle = 3, is_listening = True \<rparr>"]
    by auto
qed

text \<open>
  C3, as stated, fails: \<open>is_open\<close> is not tied to the liveness of the handle. The object
  built by the handle-adopting constructor from a handle that is no live socket has
  \<open>is_open\<close> true.
\<close>

theorem is_open_iff_live_counterexample:
  "\<not> (is_open (TCP_Connection_ctor (- 1 :: 32 word))
       = handle_live \<lparr> live = {}, released = [] \<rparr>
           (connection_handle (TCP_Connection_ctor (- 1 :: 32 word))))"
  by (simp add: TCP_Connection_ctor_def handle_live_def)

text \<open>
  C3, amended. \<open>isOk()\<close> of a connection returns exactly \<open>is_open\<close>, and \<open>isOk()\<close> of a
  server exactly \<open>is_listening\<close>. The flag is what the object was told, not a check of
  the handle: right after the handle-adopting constructor, \<open>is_open\<close> agrees with the
  liveness of the stored handle exactly when the handle the caller passed is live.
\<close>

theorem isOk_returns_flag:
  "fst (TCP_Connection_isOk c) = is_open c
   \<and> fst (TCP_Server_isOk s) = is_listening s
   \<and> ((is_open (TCP_Connection_ctor h)
        = handle_live p (connection_handle (TCP_Connection_ctor h)))
      = handle_live p h)"
  by (simp add: TCP_Connection_isOk_def TCP_Server_isOk_def TCP_Connection_ctor_def)

section \<open>Reading\<close>

text \<open>
  C4. Under the contract of the receive primitive, \<open>read\<close> returns 0 exactly at
  end-of-stream; at end-of-stream the object is unchanged, so \<open>isOk()\<close> answers what it
  answered before; and a negative result, or \<open>isOk()\<close> turning false, happens only on a
  platform error, whose message \<open>get_failure()\<close> then returns.
\<close>

theorem read_end_of_stream:
  assumes "recv_contract count oc"
  shows "((fst (TCP_Connection_read this count oc) = 0) = (oc = Recv_Eof))
    \<and> (oc = Recv_Eof \<longrightarrow>
         TCP_Connection_isOk (snd (snd (TCP_Connection_read this count oc)))
         = (is_open this, this))
    \<and> (sint (fst (TCP_Connection_read this count oc)) < 0
         \<or> (is_open this
            \<and> \<not> fst (TCP_Connection_isOk (snd (snd (TCP_Connection_read this count oc)))))
       \<longrightarrow> (\<exists>msg. oc = Recv_Error msg
               \<and> fst (Connection_get_failure
                        (snd (snd (TCP_Connection_read this count oc)))) = msg))"
proof (intro conjI impI)
  show "(fst (TCP_Connection_read this count oc) = 0) = (oc = Recv_Eof)"
    using assms by (rule read_zero_iff_eof)
next
  assume "oc = Recv_Eof"
  then show "TCP_Connection_isOk (snd (snd (TCP_Connection_read this count oc)))
             = (is_open this, this)"
    by (simp add: TCP_Connection_isOk_def)
next
  assume "sint (fst (TCP_Connection_read this count oc)) < 0
         \<or> (is_open this
            \<and> \<not> fst (TCP_Connection_isOk (snd (snd (TCP_Connection_read this count oc)))))"
  with assms show "\<exists>msg. oc = Recv_Error msg
               \<and> fst (Connection_get_failure
                        (snd (snd (TCP_Connection_read this count oc)))) = msg"
    by (rule read_failure_signalled)
qed

theorem read_end_of_stream_witness:
  "recv_contract 16 Recv_Eof
   \<and> fst (TCP_Connection_read (TCP_Connection_ctor (5 :: 32 word)) 16 Recv_Eof) = 0
   \<and> TCP_Connection_isOk
        (snd (snd (TCP_Connection_read (TCP_Connection_ctor (5 :: 32 word)) 16 Recv_Eof)))
      = (True, TCP_Connection_ctor 5)
   \<and> recv_contract 16 (Recv_Error ''reset'')
   \<and> sint (fst (TCP_Connection_read (TCP_Connection_ctor (5 :: 32 word)) 16
                  (Recv_Error ''reset''))) < 0
   \<and> fst (Connection_get_failure
        (snd (snd (TCP_Connection_read (TCP_Connection_ctor (5 :: 32 word)) 16
                     (Recv_Error ''reset''))))) = ''reset''
   \<and> recv_contract 16 (Recv_Bytes ''abc'')
   \<and> fst (TCP_Connection_read (TCP_Connection_ctor (5 :: 32 word)) 16 (Recv_Bytes ''abc''))
      \<noteq> 0"
proof -
  have eof: "recv_contract 16 Recv_Eof" by simp
  have err: "recv_contract 16 (Recv_Error ''reset'')" by simp
  have dat: "recv_contract 16 (Recv_Bytes ''abc'')" by simp
  show ?thesis
    using eof err dat
      read_end_of_stream [OF eof, of "TCP_Connection_ctor (5 :: 32 word)"]
      read_end_of_stream [OF err, of "TCP_Connection_ctor (5 :: 32 word)"]
      read_end_of_stream [OF dat, of "TCP_Connection_ctor (5 :: 32 word)"]
    by (simp add: TCP_Connection_ctor_def)
qed

section \<open>Destruction and ownership\<close>






section \<open>The flags and the failure reason over time\<close>

text \<open>
  C7. Once \<open>is_open\<close> is false, it is false after any sequence of \<open>read\<close>, \<open>write\<close>,
  \<open>isOk\<close> and \<open>get_failure\<close> calls, whatever the platform reports to them; and once
  \<open>is_listening\<close> is false, it is false after any sequence of \<open>accept\<close>, \<open>isOk\<close> and
  \<open>get_failure\<close> calls.
\<close>

theorem closed_is_terminal:
  "(\<not> is_open c \<longrightarrow> \<not> is_open (conn_calls cs c))
   \<and> (\<not> is_listening s \<longrightarrow> \<not> is_listening (server_calls ss s))"
  by (simp add: conn_calls_stay_closed server_calls_stay_closed)

theorem closed_is_terminal_witness:
  "\<not> is_open (snd (TCP_Connection_write (TCP_Connection_ctor (5 :: 32 word)) 4
                   (Send_Error ''broken pipe'')))
   \<and> \<not> is_open (conn_calls
        [Call_read 16 (Recv_Bytes ''abc''), Call_isOk, Call_write 4 (Send_Accepted 4),
         Call_get_failure, Call_read 16 Recv_Eof]
        (snd (TCP_Connection_write (TCP_Connection_ctor (5 :: 32 word)) 4
               (Send_Error ''broken pipe''))))
   \<and> \<not> is_listening (snd (TCP_Server_accept
        \<lparr> Server.failure_reason = [], listen_handle = 3 :: 32 word, is_listening = True \<rparr>
        (Accept_Listener_Failed (- 1) ''bad descriptor'')))
   \<and> \<not> is_listening (server_calls
        [Call_accept (Accept_Client 7), Call_server_isOk, Call_server_get_failure]
        (snd (TCP_Server_accept
        \<lparr> Server.failure_reason = [], listen_handle = 3 :: 32 word, is_listening = True \<rparr>
        (Accept_Listener_Failed (- 1) ''bad descriptor''))))"
proof -
  have c: "\<not> is_open (snd (TCP_Connection_write (TCP_Connection_ctor (5 :: 32 word)) 4
                   (Send_Error ''broken pipe'')))"
    by simp
  have s: "\<not> is_listening (snd (TCP_Server_accept
        \<lparr> Server.failure_reason = [], listen_handle = 3 :: 32 word, is_listening = True \<rparr>
        (Accept_Listener_Failed (- 1) ''bad descriptor'')))"
    by simp
  show ?thesis
    using c s
      closed_is_terminal [of
        "snd (TCP_Connection_write (TCP_Connection_ctor (5 :: 32 word)) 4
               (Send_Error ''broken pipe''))"
        "[Call_read 16 (Recv_Bytes ''abc''), Call_isOk, Call_write 4 (Send_Accepted 4),
          Call_get_failure, Call_read 16 Recv_Eof]"
        "snd (TCP_Server_accept
           \<lparr> Server.failure_reason = [], listen_handle = 3 :: 32 word, is_listening = True \<rparr>
           (Accept_Listener_Failed (- 1) ''bad descriptor''))"
        "[Call_accept (Accept_Client 7), Call_server_isOk, Call_server_get_failure]"]
    by blast
qed

text \<open>
  C8. A \<open>read\<close>, \<open>write\<close> or \<open>accept\<close> that succeeds leaves \<open>failure_reason\<close> as it was;
  \<open>get_failure()\<close> returns the stored \<open>failure_reason\<close>; and after a failure has
  recorded a message, \<open>get_failure()\<close> still returns that message after any sequence
  of calls that succeed.
\<close>

theorem success_keeps_failure_reason:
  "(\<not> recv_failed ro \<longrightarrow>
      Connection.failure_reason (snd (snd (TCP_Connection_read c n ro)))
      = Connection.failure_reason c)
   \<and> (\<not> send_failed so \<longrightarrow>
      Connection.failure_reason (snd (TCP_Connection_write c m so))
      = Connection.failure_reason c)
   \<and> (\<not> accept_failed ao \<longrightarrow>
      Server.failure_reason (snd (TCP_Server_accept s ao)) = Server.failure_reason s)
   \<and> fst (Connection_get_failure c) = Connection.failure_reason c
   \<and> fst (Server_get_failure s) = Server.failure_reason s
   \<and> (list_all (\<lambda>call. \<not> conn_call_failed call) cs \<longrightarrow>
      fst (Connection_get_failure
             (conn_calls cs (snd (snd (TCP_Connection_read c n (Recv_Error msg)))))) = msg)
   \<and> (list_all (\<lambda>call. \<not> server_call_failed call) ss \<longrightarrow>
      fst (Server_get_failure
             (server_calls ss (snd (TCP_Server_accept s (Accept_Listener_Failed h msg)))))
      = msg)"
proof (intro conjI impI)
  assume "\<not> recv_failed ro"
  then show "Connection.failure_reason (snd (snd (TCP_Connection_read c n ro)))
      = Connection.failure_reason c"
    by (cases ro) simp_all
next
  assume "\<not> send_failed so"
  then show "Connection.failure_reason (snd (TCP_Connection_write c m so))
      = Connection.failure_reason c"
    by (cases so) simp_all
next
  assume "\<not> accept_failed ao"
  then show "Server.failure_reason (snd (TCP_Server_accept s ao)) = Server.failure_reason s"
    by (cases ao) simp_all
next
  show "fst (Connection_get_failure c) = Connection.failure_reason c"
    by (simp add: Connection_get_failure_def)
next
  show "fst (Server_get_failure s) = Server.failure_reason s"
    by (simp add: Server_get_failure_def)
next
  assume "list_all (\<lambda>call. \<not> conn_call_failed call) cs"
  then have "Connection.failure_reason
      (conn_calls cs (snd (snd (TCP_Connection_read c n (Recv_Error msg)))))
    = Connection.failure_reason (snd (snd (TCP_Connection_read c n (Recv_Error msg))))"
    by (rule conn_calls_keep_reason)
  then show "fst (Connection_get_failure
             (conn_calls cs (snd (snd (TCP_Connection_read c n (Recv_Error msg)))))) = msg"
    by (simp add: Connection_get_failure_def)
next
  assume "list_all (\<lambda>call. \<not> server_call_failed call) ss"
  then have "Server.failure_reason
      (server_calls ss (snd (TCP_Server_accept s (Accept_Listener_Failed h msg))))
    = Server.failure_reason (snd (TCP_Server_accept s (Accept_Listener_Failed h msg)))"
    by (rule server_calls_keep_reason)
  then show "fst (Server_get_failure
             (server_calls ss (snd (TCP_Server_accept s (Accept_Listener_Failed h msg)))))
      = msg"
    by (simp add: Server_get_failure_def)
qed

theorem success_keeps_failure_reason_witness:
  "\<not> recv_failed (Recv_Bytes ''abc'')
   \<and> Connection.failure_reason (snd (snd (TCP_Connection_read
        \<lparr> Connection.failure_reason = ''earlier'', connection_handle = 5 :: 32 word,
          is_open = True \<rparr> 16 (Recv_Bytes ''abc'')))) = ''earlier''
   \<and> \<not> send_failed (Send_Accepted 4)
   \<and> Connection.failure_reason (snd (TCP_Connection_write
        \<lparr> Connection.failure_reason = ''earlier'', connection_handle = 5 :: 32 word,
          is_open = True \<rparr> 4 (Send_Accepted 4))) = ''earlier''
   \<and> \<not> accept_failed (Accept_Client (7 :: 32 word))
   \<and> Server.failure_reason (snd (TCP_Server_accept
        \<lparr> Server.failure_reason = ''earlier'', listen_handle = 3 :: 32 word,
          is_listening = True \<rparr> (Accept_Client 7))) = ''earlier''
   \<and> list_all (\<lambda>call. \<not> conn_call_failed call)
        [Call_read 16 Recv_Eof, Call_isOk, Call_write 4 (Send_Accepted 4)]
   \<and> fst (Connection_get_failure
        (conn_calls [Call_read 16 Recv_Eof, Call_isOk, Call_write 4 (Send_Accepted 4)]
           (snd (snd (TCP_Connection_read
              \<lparr> Connection.failure_reason = ''earlier'', connection_handle = 5 :: 32 word,
                is_open = True \<rparr> 16 (Recv_Error ''reset'')))))) = ''reset''
   \<and> list_all (\<lambda>call. \<not> server_call_failed call)
        [Call_accept (Accept_Client (7 :: 32 word)), Call_server_isOk]
   \<and> fst (Server_get_failure
        (server_calls [Call_accept (Accept_Client (7 :: 32 word)), Call_server_isOk]
           (snd (TCP_Server_accept
              \<lparr> Server.failure_reason = ''earlier'', listen_handle = 3 :: 32 word,
                is_listening = True \<rparr> (Accept_Listener_Failed (- 1) ''reset''))))) = ''reset''"
proof -
  have r: "\<not> recv_failed (Recv_Bytes ''abc'')" by simp
  have w: "\<not> send_failed (Send_Accepted 4)" by simp
  have a: "\<not> accept_failed (Accept_Client (7 :: 32 word))" by simp
  have cs: "list_all (\<lambda>call. \<not> conn_call_failed call)
        [Call_read 16 Recv_Eof, Call_isOk, Call_write 4 (Send_Accepted 4)]" by simp
  have ss: "list_all (\<lambda>call. \<not> server_call_failed call)
        [Call_accept (Accept_Client (7 :: 32 word)), Call_server_isOk]" by simp
  show ?thesis
    using r w a cs ss
      success_keeps_failure_reason [of "Recv_Bytes ''abc''"
        "\<lparr> Connection.failure_reason = ''earlier'', connection_handle = 5 :: 32 word,
           is_open = True \<rparr>" 16
        "Send_Accepted 4" 4
        "Accept_Client (7 :: 32 word)"
        "\<lparr> Server.failure_reason = ''earlier'', listen_handle = 3 :: 32 word,
           is_listening = True \<rparr>"
        "[Call_read 16 Recv_Eof, Call_isOk, Call_write 4 (Send_Accepted 4)]"
        "''reset''"
        "[Call_accept (Accept_Client (7 :: 32 word)), Call_server_isOk]"
        "- 1"]
    by simp
qed

text \<open>
  C9. The \<open>failure_reason\<close> of a base subobject is default-constructed, hence empty:
  \<open>get_failure()\<close> returns the empty string on a \<open>Connection\<close> and on a \<open>Server\<close> as
  their constructors leave them, and on a \<open>TCP_Connection\<close> fresh from the
  handle-adopting constructor, which does not touch the member.
\<close>

theorem fresh_object_failure_empty:
  "fst (Connection_get_failure Connection_ctor) = []
   \<and> fst (Server_get_failure Server_ctor) = []
   \<and> fst (Connection_get_failure (TCP_Connection_ctor h)) = []
   \<and> Connection.failure_reason (TCP_Connection_ctor h)
      = Connection.failure_reason Connection_ctor"
  by (simp add: Connection_get_failure_def Server_get_failure_def Connection_ctor_def
      Server_ctor_def TCP_Connection_ctor_def)

text \<open>
  C10. \<open>get_failure()\<close> returns the stored \<open>failure_reason\<close> and leaves the object as it
  is, in both base classes and so on any object derived from them: the handle and the
  flag of a \<open>TCP_Connection\<close> or a \<open>TCP_Server\<close> are unchanged, and a second call
  returns what the first returned.
\<close>

theorem get_failure_pure:
  "Connection_get_failure c = (Connection.failure_reason c, c)
   \<and> fst (Connection_get_failure (snd (Connection_get_failure c)))
      = fst (Connection_get_failure c)
   \<and> Server_get_failure s = (Server.failure_reason s, s)
   \<and> fst (Server_get_failure (snd (Server_get_failure s))) = fst (Server_get_failure s)
   \<and> connection_handle (snd (Connection_get_failure t)) = connection_handle t
   \<and> is_open (snd (Connection_get_failure t)) = is_open t
   \<and> listen_handle (snd (Server_get_failure u)) = listen_handle u
   \<and> is_listening (snd (Server_get_failure u)) = is_listening u"
  by (simp add: Connection_get_failure_def Server_get_failure_def)

end
